theory Spec2Isabelle
  imports Main "HOL-Library.Word"
begin

section \<open>The CRIU support natives of \<^verbatim>\<open>runtime/criusupport/criusupport.c\<close>\<close>

text \<open>
  The file implements three JNI natives: \<^verbatim>\<open>isCRIUSupportEnabledImpl\<close>,
  \<^verbatim>\<open>isCheckpointAllowed\<close> and \<^verbatim>\<open>checkpointJVMImpl\<close>, with the helpers
  \<^verbatim>\<open>setupJNIFieldIDs\<close>, \<^verbatim>\<open>constructResult\<close> and \<^verbatim>\<open>getNativeString\<close>.
  All of them are straight-line code over calls into the VM, the port library, libc and
  libcriu. None of those callees is part of the file, so every call is modelled by
  \<^item> the value it returns, taken from a record of answers (\<open>calls\<close>, \<open>str_calls\<close>,
    \<open>jni_calls\<close>), and
  \<^item> an \<open>event\<close> in the list of calls the native made, in program order.
  The code between the calls (assignments, tests, \<^verbatim>\<open>goto\<close>s to the cleanup labels) is
  translated as it stands; each cleanup label is a function of its own that continues
  with the next label, which is what falling through does.
\<close>

subsection \<open>Data\<close>

text \<open>
  The six constants of \<^verbatim>\<open>CRIUSupport$CRIUResultType\<close>. The C code carries a
  \<^verbatim>\<open>jfieldID\<close> read from \<^verbatim>\<open>vm->criuSupportSuccess\<close>, ... ; the model carries the name
  of the constant that field id was resolved from (lines 54 to 64).
\<close>

datatype result_type =
    SUCCESS
  | UNSUPPORTED_OPERATION
  | INVALID_ARGUMENTS
  | SYSTEM_CHECKPOINT_FAILURE
  | JVM_CHECKPOINT_FAILURE
  | JVM_RESTORE_FAILURE

text \<open>The NLS messages passed to \<^verbatim>\<open>setCurrentExceptionNLSWithArgs\<close>.\<close>

datatype nls =
    FAILED_TO_CONVERT_JAVA_STRING
  | FAILED_TO_OPEN_DIR
  | INIT_FAILED
  | DUMP_FAILED
  | FAILED_TO_CLOSE_DIR

text \<open>
  \<^verbatim>\<open>currentThread->currentException\<close>: an \<^verbatim>\<open>InternalError\<close> built from a message and
  one numeric argument, or the native out-of-memory error.
\<close>

datatype exc = InternalError nls int | NativeOutOfMemoryError

text \<open>
  A \<^verbatim>\<open>char *\<close> of the code is \<^verbatim>\<open>NULL\<close>, the address of the local array of
  \<^verbatim>\<open>STRING_BUFFER_SIZE\<close> bytes it is compared with (\<^verbatim>\<open>directoryBuf\<close> for
  \<^verbatim>\<open>directoryChars\<close>, \<^verbatim>\<open>mutf8StringBuf\<close> for \<^verbatim>\<open>mutf8String\<close>, and so on), or a block from
  the allocator with its size in bytes.
\<close>

datatype ptr = Null | StackBuf | Heap "64 word"

text \<open>The three path arguments and the two descriptor variables of the checkpoint native.\<close>

datatype path = ImagesDir | LogFile | WorkDir

datatype fd_slot = DirFD | WorkDirFD

text \<open>
  The two classes \<^verbatim>\<open>setupJNIFieldIDs\<close> looks up: \<^verbatim>\<open>CRIUSupport$CRIUResultType\<close> and
  \<^verbatim>\<open>CRIUSupport$CRIUResult\<close>.
\<close>

datatype criu_class = CRIUResultType | CRIUResult

datatype event =
    EnterVM
  | ExitVM
  | CopyStringToUTF8 path ptr
  | StrConvert path "32 word"
  | MemAllocate path "64 word" ptr
  | FreeUTF8 path ptr
  | Open fd_slot int
  | CriuInitOpts int
  | CriuSetImagesDirFd int
  | CriuSetShellJob bool
  | CriuSetLogLevel int
  | CriuSetLogFile ptr
  | CriuSetLeaveRunning bool
  | CriuSetExtUnixSk bool
  | CriuSetFileLocks bool
  | CriuSetWorkDirFd int
  | AcquireExclusiveVMAccess
  | CheckpointHooks bool
  | CriuDump int
  | RestoreHooks bool
  | ReleaseExclusiveVMAccess
  | Close fd_slot int int
  | MemFree path ptr
  | CreateLocalRef bool
  | FindClass criu_class
  | NewGlobalRef criu_class
  | GetStaticFieldID result_type
  | GetMethodID

text \<open>
  An \<open>event\<close> is one call, with the arguments and the answer that matter: \<open>Open s fd\<close>
  is \<^verbatim>\<open>open(..., O_DIRECTORY)\<close> for the slot \<open>s\<close> returning \<open>fd\<close>, \<open>Close s fd rc\<close> is
  \<^verbatim>\<open>close(fd)\<close> on the value of slot \<open>s\<close> returning \<open>rc\<close>, \<open>MemAllocate p n q\<close> is
  \<^verbatim>\<open>j9mem_allocate_memory(n)\<close> for the converted string of path \<open>p\<close> returning \<open>q\<close>,
  \<open>MemFree p q\<close> is \<^verbatim>\<open>j9mem_free_memory(q)\<close> on that string, and \<open>FreeUTF8 p q\<close> the one on
  the helper's scratch copy.

  \<^verbatim>\<open>currentThread->currentException\<close> is an \<open>exc option\<close>, passed in and out.
\<close>

definition setNativeOutOfMemoryError :: "exc option \<Rightarrow> exc option" where
  "setNativeOutOfMemoryError x = Some NativeOutOfMemoryError"

definition setCurrentExceptionNLSWithArgs :: "nls \<Rightarrow> int \<Rightarrow> exc option \<Rightarrow> exc option" where
  "setCurrentExceptionNLSWithArgs m a x = Some (InternalError m a)"

text \<open>
  What stops a native before it returns: a failed \<^verbatim>\<open>Assert_CRIU_notNull\<close>, or the store
  of the terminating NUL outside the buffer it is written to, after which C says nothing
  about the program.
\<close>

datatype error = AssertionFailed | OutOfBoundsWrite

subsection \<open>\<^verbatim>\<open>getNativeString\<close> (lines 123 to 193)\<close>

text \<open>
  The answers of the four calls the helper makes: \<^verbatim>\<open>copyStringToUTF8WithMemAlloc\<close>
  (\<^verbatim>\<open>NULL\<close>, the scratch buffer it was given, or a block of its own), the two
  \<^verbatim>\<open>omrstr_convert\<close> calls (an \<^verbatim>\<open>int32_t\<close>: a size, or a negative error code) and whether
  \<^verbatim>\<open>j9mem_allocate_memory\<close> finds the memory.
\<close>

record str_calls =
  copyString :: ptr
  convertSize :: "32 word"
  allocateOk :: bool
  convertString :: "32 word"

definition STRING_BUFFER_SIZE :: "64 word" where
  "STRING_BUFFER_SIZE = 256"

text \<open>Bytes that can be written through a pointer.\<close>

fun capacity :: "ptr \<Rightarrow> 64 word" where
  "capacity Null = 0"
| "capacity StackBuf = STRING_BUFFER_SIZE"
| "capacity (Heap n) = n"

text \<open>
  What the helper hands back: its \<^verbatim>\<open>BOOLEAN\<close>, the new values of \<^verbatim>\<open>*nativeString\<close>, of
  \<^verbatim>\<open>*resultType\<close> and of the pending exception, and the calls it made.
\<close>

type_synonym str_result = "bool \<times> ptr \<times> result_type \<times> exc option \<times> event list"

text \<open>The label \<^verbatim>\<open>free:\<close> (lines 187 to 192).\<close>

definition getNativeString_free :: "path \<Rightarrow> ptr \<Rightarrow> event list" where
  "getNativeString_free p mutf8String =
     (if mutf8String \<noteq> StackBuf then [FreeUTF8 p mutf8String] else [])"

text \<open>
  \<open>requiredConvertedStringSize\<close> is a \<^verbatim>\<open>UDATA\<close>, the unsigned pointer-sized integer of
  the port library, so the \<^verbatim>\<open>int32_t\<close> returned by \<^verbatim>\<open>omrstr_convert\<close> is sign-extended
  into a \<open>64 word\<close>, \<^verbatim>\<open>requiredConvertedStringSize < 0\<close> is the unsigned comparison and
  \<^verbatim>\<open>+= 1\<close> wraps. The store of the NUL at index \<^verbatim>\<open>requiredConvertedStringSize - 1\<close>
  (line 171) changes no value the model keeps; it is checked against the size of the
  buffer it goes to.
\<close>

definition getNativeString ::
  "path \<Rightarrow> str_calls \<Rightarrow> exc option \<Rightarrow> ptr \<Rightarrow> result_type \<Rightarrow> error + str_result" where
  "getNativeString p c exception nativeString resultType =
     (let mutf8String = copyString c;
          evs = [CopyStringToUTF8 p mutf8String]
      in if mutf8String = Null then
           Inr (False, nativeString, JVM_CHECKPOINT_FAILURE,
                setNativeOutOfMemoryError exception, evs @ getNativeString_free p mutf8String)
         else
           let rc = convertSize c;
               evs = evs @ [StrConvert p rc];
               requiredConvertedStringSize = (scast rc :: 64 word)
           in if requiredConvertedStringSize < 0 then
                Inr (False, nativeString, INVALID_ARGUMENTS,
                     setCurrentExceptionNLSWithArgs FAILED_TO_CONVERT_JAVA_STRING
                       (uint requiredConvertedStringSize) exception,
                     evs @ getNativeString_free p mutf8String)
              else
                let requiredConvertedStringSize = requiredConvertedStringSize + 1;
                    allocated = (requiredConvertedStringSize > STRING_BUFFER_SIZE);
                    nativeString =
                      (if allocated then
                         (if allocateOk c then Heap requiredConvertedStringSize else Null)
                       else nativeString);
                    evs =
                      (if allocated then
                         evs @ [MemAllocate p requiredConvertedStringSize nativeString]
                       else evs)
                in if allocated \<and> nativeString = Null then
                     Inr (False, nativeString, JVM_CHECKPOINT_FAILURE,
                          setNativeOutOfMemoryError exception,
                          evs @ getNativeString_free p mutf8String)
                   else if \<not> (requiredConvertedStringSize - 1 < capacity nativeString) then
                     Inl OutOfBoundsWrite
                   else
                     let rc = convertString c;
                         evs = evs @ [StrConvert p rc];
                         requiredConvertedStringSize = (scast rc :: 64 word)
                     in if requiredConvertedStringSize < 0 then
                          Inr (False, nativeString, INVALID_ARGUMENTS,
                               setCurrentExceptionNLSWithArgs FAILED_TO_CONVERT_JAVA_STRING
                                 (uint requiredConvertedStringSize) exception,
                               evs @ getNativeString_free p mutf8String)
                        else
                          Inr (True, nativeString, resultType, exception,
                               evs @ getNativeString_free p mutf8String))"

subsection \<open>\<^verbatim>\<open>checkpointJVMImpl\<close> (lines 196 to 370)\<close>

text \<open>
  The arguments of the native. A \<^verbatim>\<open>jstring\<close> is \<open>None\<close> for \<^verbatim>\<open>NULL\<close>; a \<^verbatim>\<open>jboolean\<close>
  is a byte compared with \<^verbatim>\<open>JNI_FALSE\<close>, which is 0; \<^verbatim>\<open>jint\<close>, the \<^verbatim>\<open>int\<close>s returned by
  libc and libcriu and the \<^verbatim>\<open>IDATA\<close>s that hold them are signed and never computed
  with, so they are \<open>int\<close>.
\<close>

record request =
  imagesDir :: "string option"
  leaveRunning :: "8 word"
  shellJob :: "8 word"
  extUnixSupport :: "8 word"
  logLevel :: int
  logFile :: "string option"
  fileLocks :: "8 word"
  workDir :: "string option"

text \<open>
  The answers of the calls the native makes, in the order of the code. \<open>open\<close> and
  \<open>close\<close> answer with the value returned and the \<^verbatim>\<open>errno\<close> they leave.
\<close>

record calls =
  vm_isCheckpointAllowed :: bool
  imagesDir_str :: str_calls
  logFile_str :: str_calls
  open_imagesDir :: "int \<times> int"
  workDir_str :: str_calls
  open_workDir :: "int \<times> int"
  criu_init_opts :: int
  jvmCheckpointHooks :: bool
  criu_dump :: int
  jvmRestoreHooks :: bool
  close_workDirFD :: "int \<times> int"
  close_dirFD :: "int \<times> int"
  j9jni_createLocalRef :: bool

text \<open>The local variables of the native that outlive a statement (lines 212 to 229).\<close>

record locals =
  resultType :: result_type
  dirFD :: int
  workDirFD :: int
  directoryChars :: ptr
  logFileChars :: ptr
  workDirChars :: ptr
  systemReturnCode :: int
  isAfterCheckpoint :: bool
  exception :: "exc option"

text \<open>
  What the native leaves behind: the \<^verbatim>\<open>CRIUResult\<close> built by \<^verbatim>\<open>constructResult\<close> from
  the result type and the throwable, the exception still pending in the thread, and the
  calls made.
\<close>

record result =
  criuResultType :: result_type
  criuThrowable :: "exc option"
  pending :: "exc option"
  events :: "event list"

definition constructResult :: "result_type \<Rightarrow> exc option \<Rightarrow> exc option \<Rightarrow> result" where
  "constructResult rt throwable x =
     \<lparr>criuResultType = rt, criuThrowable = throwable, pending = x, events = []\<rparr>"

text \<open>\<open>emit evs r\<close>: the calls \<open>evs\<close> are made, then the program goes on as \<open>r\<close>.\<close>

definition emit :: "event list \<Rightarrow> result \<Rightarrow> result" where
  "emit evs r = r\<lparr>events := evs @ events r\<rparr>"

text \<open>The label \<^verbatim>\<open>freeDir:\<close> and the end of the native (lines 351 to 369).\<close>

definition freeDir :: "calls \<Rightarrow> locals \<Rightarrow> result" where
  "freeDir c l =
     emit (if directoryChars l \<noteq> StackBuf then [MemFree ImagesDir (directoryChars l)] else [])
       (case exception l of
          None \<Rightarrow> emit [ExitVM] (constructResult (resultType l) None None)
        | Some e \<Rightarrow>
            emit [CreateLocalRef (j9jni_createLocalRef c)]
              (if j9jni_createLocalRef c then
                 emit [ExitVM] (constructResult (resultType l) (Some e) None)
               else
                 emit [ExitVM]
                   (constructResult (resultType l) None (setNativeOutOfMemoryError None))))"

text \<open>The label \<^verbatim>\<open>freeLog:\<close> (lines 347 to 350).\<close>

definition freeLog :: "calls \<Rightarrow> locals \<Rightarrow> result" where
  "freeLog c l =
     emit (if logFileChars l \<noteq> StackBuf then [MemFree LogFile (logFileChars l)] else [])
       (freeDir c l)"

text \<open>
  The body of both \<^verbatim>\<open>if (0 != close(...))\<close> (lines 326 to 332 and 336 to 342), the same
  text twice.
\<close>

definition closeFailed :: "int \<Rightarrow> locals \<Rightarrow> locals" where
  "closeFailed errno l =
     (let l = l\<lparr>systemReturnCode := errno\<rparr>;
          l = (if isAfterCheckpoint l then l\<lparr>resultType := JVM_RESTORE_FAILURE\<rparr>
               else l\<lparr>resultType := JVM_CHECKPOINT_FAILURE\<rparr>)
      in l\<lparr>exception :=
             setCurrentExceptionNLSWithArgs FAILED_TO_CLOSE_DIR (systemReturnCode l)
               (exception l)\<rparr>)"

text \<open>The label \<^verbatim>\<open>freeWorkDir:\<close> (lines 334 to 346).\<close>

definition freeWorkDir :: "calls \<Rightarrow> locals \<Rightarrow> result" where
  "freeWorkDir c l =
     (let (rc, errno) = close_dirFD c
      in emit [Close DirFD (dirFD l) rc]
           (let l = (if 0 \<noteq> rc then closeFailed errno l else l)
            in emit (if workDirChars l \<noteq> StackBuf then [MemFree WorkDir (workDirChars l)]
                     else [])
                 (freeLog c l)))"

text \<open>The label \<^verbatim>\<open>closeWorkDirFD:\<close> (lines 324 to 333).\<close>

definition closeWorkDirFD :: "calls \<Rightarrow> locals \<Rightarrow> result" where
  "closeWorkDirFD c l =
     (let (rc, errno) = close_workDirFD c
      in emit [Close WorkDirFD (workDirFD l) rc]
           (let l = (if 0 \<noteq> rc then closeFailed errno l else l)
            in freeWorkDir c l))"

text \<open>The label \<^verbatim>\<open>releaseExclusive:\<close> (lines 322 and 323).\<close>

definition releaseExclusive :: "calls \<Rightarrow> locals \<Rightarrow> result" where
  "releaseExclusive c l = emit [ReleaseExclusiveVMAccess] (closeWorkDirFD c l)"

text \<open>
  Lines 298 to 320: exclusive VM access, the checkpoint hooks, the dump and the restore
  hooks. Every way out is a \<^verbatim>\<open>goto releaseExclusive\<close> or falls into that label.
\<close>

definition checkpoint_exclusive :: "calls \<Rightarrow> locals \<Rightarrow> result" where
  "checkpoint_exclusive c l =
     emit [AcquireExclusiveVMAccess, CheckpointHooks (jvmCheckpointHooks c)]
       (if \<not> jvmCheckpointHooks c then
          releaseExclusive c (l\<lparr>resultType := JVM_CHECKPOINT_FAILURE\<rparr>)
        else
          let l = l\<lparr>systemReturnCode := criu_dump c\<rparr>
          in emit [CriuDump (systemReturnCode l)]
               (if systemReturnCode l < 0 then
                  releaseExclusive c
                    (l\<lparr>exception :=
                         setCurrentExceptionNLSWithArgs DUMP_FAILED (systemReturnCode l)
                           (exception l),
                       resultType := SYSTEM_CHECKPOINT_FAILURE\<rparr>)
                else
                  let l = l\<lparr>isAfterCheckpoint := True\<rparr>
                  in emit [RestoreHooks (jvmRestoreHooks c)]
                       (if \<not> jvmRestoreHooks c then
                          releaseExclusive c (l\<lparr>resultType := JVM_RESTORE_FAILURE\<rparr>)
                        else releaseExclusive c (l\<lparr>resultType := SUCCESS\<rparr>))))"

text \<open>Lines 276 to 296: \<^verbatim>\<open>criu_init_opts\<close> and the option setters.\<close>

definition checkpoint_configure :: "request \<Rightarrow> calls \<Rightarrow> locals \<Rightarrow> result" where
  "checkpoint_configure rq c l =
     (let l = l\<lparr>systemReturnCode := criu_init_opts c\<rparr>
      in emit [CriuInitOpts (systemReturnCode l)]
           (if 0 \<noteq> systemReturnCode l then
              closeWorkDirFD c
                (l\<lparr>exception :=
                     setCurrentExceptionNLSWithArgs INIT_FAILED (systemReturnCode l)
                       (exception l),
                   resultType := SYSTEM_CHECKPOINT_FAILURE\<rparr>)
            else
              emit ([CriuSetImagesDirFd (dirFD l), CriuSetShellJob (0 \<noteq> shellJob rq)]
                    @ (if logLevel rq > 0 then [CriuSetLogLevel (logLevel rq)] else [])
                    @ (if logFile rq \<noteq> None then [CriuSetLogFile (logFileChars l)] else [])
                    @ [CriuSetLeaveRunning (0 \<noteq> leaveRunning rq),
                       CriuSetExtUnixSk (0 \<noteq> extUnixSupport rq),
                       CriuSetFileLocks (0 \<noteq> fileLocks rq)]
                    @ (if workDir rq \<noteq> None then [CriuSetWorkDirFd (workDirFD l)] else []))
                (checkpoint_exclusive c l)))"

text \<open>Lines 260 to 274: the work directory, when one is given.\<close>

definition checkpoint_workDir :: "request \<Rightarrow> calls \<Rightarrow> locals \<Rightarrow> error + result" where
  "checkpoint_workDir rq c l =
     (if workDir rq \<noteq> None then
        case getNativeString WorkDir (workDir_str c) (exception l) (workDirChars l)
               (resultType l) of
          Inl e \<Rightarrow> Inl e
        | Inr (res, s, rt, x, evs) \<Rightarrow>
            let l = l\<lparr>workDirChars := s, resultType := rt, exception := x\<rparr>
            in Inr (emit evs
                 (if \<not> res then freeWorkDir c l
                  else
                    let (fd, errno) = open_workDir c;
                        l = l\<lparr>workDirFD := fd\<rparr>
                    in emit [Open WorkDirFD fd]
                         (if workDirFD l < 0 then
                            let l = l\<lparr>systemReturnCode := errno\<rparr>
                            in freeWorkDir c
                                 (l\<lparr>exception :=
                                      setCurrentExceptionNLSWithArgs FAILED_TO_OPEN_DIR
                                        (systemReturnCode l) (exception l),
                                    resultType := INVALID_ARGUMENTS\<rparr>)
                          else checkpoint_configure rq c l)))
      else Inr (checkpoint_configure rq c l))"

text \<open>Lines 252 to 258: the image directory is opened.\<close>

definition checkpoint_open :: "request \<Rightarrow> calls \<Rightarrow> locals \<Rightarrow> error + result" where
  "checkpoint_open rq c l =
     (let (fd, errno) = open_imagesDir c;
          l = l\<lparr>dirFD := fd\<rparr>
      in map_sum id (emit [Open DirFD fd])
           (if dirFD l < 0 then
              let l = l\<lparr>systemReturnCode := errno\<rparr>
              in Inr (freeLog c
                   (l\<lparr>exception :=
                        setCurrentExceptionNLSWithArgs FAILED_TO_OPEN_DIR
                          (systemReturnCode l) (exception l),
                      resultType := INVALID_ARGUMENTS\<rparr>))
            else checkpoint_workDir rq c l))"

text \<open>Lines 245 to 250: the log file name, when one is given.\<close>

definition checkpoint_log :: "request \<Rightarrow> calls \<Rightarrow> locals \<Rightarrow> error + result" where
  "checkpoint_log rq c l =
     (if logFile rq \<noteq> None then
        case getNativeString LogFile (logFile_str c) (exception l) (logFileChars l)
               (resultType l) of
          Inl e \<Rightarrow> Inl e
        | Inr (res, s, rt, x, evs) \<Rightarrow>
            let l = l\<lparr>logFileChars := s, resultType := rt, exception := x\<rparr>
            in map_sum id (emit evs)
                 (if \<not> res then Inr (freeLog c l) else checkpoint_open rq c l)
      else checkpoint_open rq c l)"

text \<open>
  The native. The thread enters with the exception \<open>x\<close> pending (none, when Java calls
  a native). \<^verbatim>\<open>Assert_CRIU_notNull(imagesDir)\<close> is line 234.
\<close>

definition checkpointJVMImpl :: "request \<Rightarrow> calls \<Rightarrow> exc option \<Rightarrow> error + result" where
  "checkpointJVMImpl rq c x =
     (let l = \<lparr>resultType = UNSUPPORTED_OPERATION, dirFD = 0, workDirFD = 0,
               directoryChars = StackBuf, logFileChars = StackBuf, workDirChars = StackBuf,
               systemReturnCode = 0, isAfterCheckpoint = False, exception = x\<rparr>
      in if vm_isCheckpointAllowed c then
           map_sum id (emit [EnterVM])
             (if imagesDir rq = None then Inl AssertionFailed
              else
                case getNativeString ImagesDir (imagesDir_str c) (exception l)
                       (directoryChars l) (resultType l) of
                  Inl e \<Rightarrow> Inl e
                | Inr (res, s, rt, x, evs) \<Rightarrow>
                    let l = l\<lparr>directoryChars := s, resultType := rt, exception := x\<rparr>
                    in map_sum id (emit evs)
                         (if \<not> res then Inr (freeDir c l) else checkpoint_log rq c l))
         else Inr (constructResult (resultType l) None (exception l)))"

subsection \<open>\<^verbatim>\<open>setupJNIFieldIDs\<close> and the two queries (lines 36 to 121)\<close>

text \<open>
  The fields of \<^verbatim>\<open>J9JavaVM\<close> that \<^verbatim>\<open>setupJNIFieldIDs\<close> fills: two global references, six
  field ids and a method id, \<open>None\<close> for \<^verbatim>\<open>NULL\<close>.
\<close>

record javaVM =
  criuResultTypeClass :: "nat option"
  criuResultClass :: "nat option"
  criuSupportSuccess :: "nat option"
  criuSupportUnsupportedOperation :: "nat option"
  criuSupportInvalidArguments :: "nat option"
  criuSupportSystemCheckpointFailure :: "nat option"
  criuSupportJVMCheckpointFailure :: "nat option"
  criuSupportJVMRestoreFailure :: "nat option"
  criuResultInit :: "nat option"

text \<open>The answers of the VM, of libcriu and of the JNI functions to the two queries.\<close>

record jni_calls =
  vm_isCRIUSupportEnabled :: bool
  vm_checkpointAllowed :: bool
  criu_init_opts_query :: int
  jni_FindClass :: "criu_class \<Rightarrow> nat option"
  jni_NewGlobalRef :: "criu_class \<Rightarrow> nat option"
  jni_GetStaticFieldID :: "result_type \<Rightarrow> nat option"
  jni_GetMethodID :: "nat option"

text \<open>
  The process-wide state a query can touch: the cached metadata in the VM, the
  exception pending in the thread, and the calls made, among them those into libcriu.
\<close>

record process =
  vm :: javaVM
  currentException :: "exc option"
  made :: "event list"

definition call :: "event \<Rightarrow> process \<Rightarrow> process" where
  "call e s = s\<lparr>made := made s @ [e]\<rparr>"

text \<open>
  \<open>Assert_CRIU_notNull\<close> after a field of the VM has been stored: the state goes on
  when the value is there.
\<close>

definition Assert_CRIU_notNull :: "'a option \<Rightarrow> process \<Rightarrow> error + process" where
  "Assert_CRIU_notNull v s = (if v = None then Inl AssertionFailed else Inr s)"

definition bind_process :: "error + process \<Rightarrow> (process \<Rightarrow> error + process) \<Rightarrow> error + process"
  where
  "bind_process m f = (case m of Inl e \<Rightarrow> Inl e | Inr s \<Rightarrow> f s)"

text \<open>Lines 54 to 68, the branch in which both global references exist.\<close>

definition setupJNIFieldIDs_fields :: "jni_calls \<Rightarrow> process \<Rightarrow> error + process" where
  "setupJNIFieldIDs_fields j s =
     bind_process
       (let s = call (GetStaticFieldID SUCCESS) s;
            s = s\<lparr>vm := (vm s)\<lparr>criuSupportSuccess := jni_GetStaticFieldID j SUCCESS\<rparr>\<rparr>
        in Assert_CRIU_notNull (criuSupportSuccess (vm s)) s)
    (\<lambda>s. bind_process
       (let s = call (GetStaticFieldID UNSUPPORTED_OPERATION) s;
            s = s\<lparr>vm := (vm s)\<lparr>criuSupportUnsupportedOperation :=
                                   jni_GetStaticFieldID j UNSUPPORTED_OPERATION\<rparr>\<rparr>
        in Assert_CRIU_notNull (criuSupportUnsupportedOperation (vm s)) s)
    (\<lambda>s. bind_process
       (let s = call (GetStaticFieldID INVALID_ARGUMENTS) s;
            s = s\<lparr>vm := (vm s)\<lparr>criuSupportInvalidArguments :=
                                   jni_GetStaticFieldID j INVALID_ARGUMENTS\<rparr>\<rparr>
        in Assert_CRIU_notNull (criuSupportInvalidArguments (vm s)) s)
    (\<lambda>s. bind_process
       (let s = call (GetStaticFieldID SYSTEM_CHECKPOINT_FAILURE) s;
            s = s\<lparr>vm := (vm s)\<lparr>criuSupportSystemCheckpointFailure :=
                                   jni_GetStaticFieldID j SYSTEM_CHECKPOINT_FAILURE\<rparr>\<rparr>
        in Assert_CRIU_notNull (criuSupportSystemCheckpointFailure (vm s)) s)
    (\<lambda>s. bind_process
       (let s = call (GetStaticFieldID JVM_CHECKPOINT_FAILURE) s;
            s = s\<lparr>vm := (vm s)\<lparr>criuSupportJVMCheckpointFailure :=
                                   jni_GetStaticFieldID j JVM_CHECKPOINT_FAILURE\<rparr>\<rparr>
        in Assert_CRIU_notNull (criuSupportJVMCheckpointFailure (vm s)) s)
    (\<lambda>s. bind_process
       (let s = call (GetStaticFieldID JVM_RESTORE_FAILURE) s;
            s = s\<lparr>vm := (vm s)\<lparr>criuSupportJVMRestoreFailure :=
                                   jni_GetStaticFieldID j JVM_RESTORE_FAILURE\<rparr>\<rparr>
        in Assert_CRIU_notNull (criuSupportJVMRestoreFailure (vm s)) s)
    (\<lambda>s.
       (let s = call GetMethodID s;
            s = s\<lparr>vm := (vm s)\<lparr>criuResultInit := jni_GetMethodID j\<rparr>\<rparr>
        in Assert_CRIU_notNull (criuResultInit (vm s)) s)))))))"

text \<open>
  \<^verbatim>\<open>setupJNIFieldIDs\<close> (lines 36 to 74). The asserts of lines 46 and 50 are on the local
  class references returned by \<^verbatim>\<open>FindClass\<close>, before the global references are made.
\<close>

definition setupJNIFieldIDs :: "jni_calls \<Rightarrow> process \<Rightarrow> error + process" where
  "setupJNIFieldIDs j s =
     bind_process (Assert_CRIU_notNull (jni_FindClass j CRIUResultType)
                     (call (FindClass CRIUResultType) s))
    (\<lambda>s. let s = call (NewGlobalRef CRIUResultType) s;
              s = s\<lparr>vm := (vm s)\<lparr>criuResultTypeClass := jni_NewGlobalRef j CRIUResultType\<rparr>\<rparr>
          in bind_process (Assert_CRIU_notNull (jni_FindClass j CRIUResult)
                             (call (FindClass CRIUResult) s))
    (\<lambda>s. let s = call (NewGlobalRef CRIUResult) s;
              s = s\<lparr>vm := (vm s)\<lparr>criuResultClass := jni_NewGlobalRef j CRIUResult\<rparr>\<rparr>
          in if None \<noteq> criuResultTypeClass (vm s) \<and> None \<noteq> criuResultClass (vm s) then
               setupJNIFieldIDs_fields j s
             else
               let s = call EnterVM s;
                   s = s\<lparr>currentException := setNativeOutOfMemoryError (currentException s)\<rparr>
               in Inr (call ExitVM s)))"

text \<open>\<^verbatim>\<open>isCRIUSupportEnabledImpl\<close> (lines 91 to 108), on Linux.\<close>

definition isCRIUSupportEnabledImpl :: "jni_calls \<Rightarrow> process \<Rightarrow> error + bool \<times> process" where
  "isCRIUSupportEnabledImpl j s =
     (let res = False;
          (res, s) =
            (if vm_isCRIUSupportEnabled j then
               let s = call (CriuInitOpts (criu_init_opts_query j)) s
               in if 0 = criu_init_opts_query j then (True, s) else (res, s)
             else (res, s))
      in case setupJNIFieldIDs j s of
           Inl e \<Rightarrow> Inl e
         | Inr s \<Rightarrow> Inr (res, s))"

text \<open>\<^verbatim>\<open>isCheckpointAllowed\<close> (lines 110 to 121).\<close>

definition isCheckpointAllowed :: "jni_calls \<Rightarrow> process \<Rightarrow> bool \<times> process" where
  "isCheckpointAllowed j s =
     (let res = False;
          res = (if vm_checkpointAllowed j then True else res)
      in (res, s))"

section \<open>Reading a run\<close>

text \<open>
  The handles of one checkpoint are the two descriptors and the three converted path
  strings, the variables declared in lines 220 to 227. A descriptor is acquired by an
  \<^verbatim>\<open>open\<close> that returns a non-negative value, a string by an allocation that returns a
  block; a descriptor is released by \<^verbatim>\<open>close\<close>, a string by \<^verbatim>\<open>j9mem_free_memory\<close> on a
  block (freeing \<^verbatim>\<open>NULL\<close> releases nothing). The scratch copy made and freed inside
  \<^verbatim>\<open>getNativeString\<close> never leaves the helper and is not one of them.
\<close>

datatype handle = FD fd_slot | Str path

fun acquires :: "event \<Rightarrow> handle option" where
  "acquires (Open s fd) = (if 0 \<le> fd then Some (FD s) else None)"
| "acquires (MemAllocate p n q) = (if q = Null then None else Some (Str p))"
| "acquires _ = None"

fun releases :: "event \<Rightarrow> handle option" where
  "releases (Close s fd rc) = Some (FD s)"
| "releases (MemFree p q) = (if q = Null then None else Some (Str p))"
| "releases _ = None"

text \<open>The handles acquired, and those released, by a list of calls, in order.\<close>

fun acquired :: "event list \<Rightarrow> handle list" where
  "acquired [] = []"
| "acquired (e # es) =
     (case acquires e of None \<Rightarrow> acquired es | Some h \<Rightarrow> h # acquired es)"

fun released :: "event list \<Rightarrow> handle list" where
  "released [] = []"
| "released (e # es) =
     (case releases e of None \<Rightarrow> released es | Some h \<Rightarrow> h # released es)"

definition handle_release :: "event \<Rightarrow> bool" where
  "handle_release e = (case releases e of None \<Rightarrow> False | Some h \<Rightarrow> True)"

text \<open>\<open>before P Q xs\<close>: some element with \<open>P\<close> comes earlier in \<open>xs\<close> than some element with \<open>Q\<close>.\<close>

fun before :: "('a \<Rightarrow> bool) \<Rightarrow> ('a \<Rightarrow> bool) \<Rightarrow> 'a list \<Rightarrow> bool" where
  "before P Q [] = False"
| "before P Q (x # xs) = ((P x \<and> list_ex Q xs) \<or> before P Q xs)"

text \<open>A \<^verbatim>\<open>close\<close> that did not return 0, and a \<^verbatim>\<open>criu_dump\<close> that returned control.\<close>

fun close_failed :: "event \<Rightarrow> bool" where
  "close_failed (Close s fd rc) = (rc \<noteq> 0)"
| "close_failed _ = False"

fun dump_returned :: "event \<Rightarrow> bool" where
  "dump_returned (CriuDump rc) = (0 \<le> rc)"
| "dump_returned _ = False"

text \<open>The four kinds of call \<^verbatim>\<open>getNativeString\<close> makes.\<close>

fun helper_event :: "event \<Rightarrow> bool" where
  "helper_event (CopyStringToUTF8 p q) = True"
| "helper_event (StrConvert p rc) = True"
| "helper_event (MemAllocate p n q) = True"
| "helper_event (FreeUTF8 p q) = True"
| "helper_event _ = False"

text \<open>
  Names for the pieces every cleanup path is made of: the calls of lines 355 to 365, one
  of the three \<^verbatim>\<open>if (buf != chars) j9mem_free_memory(chars)\<close>, the locals after one
  \<^verbatim>\<open>if (0 != close(...))\<close>, and the handle such a free releases.
\<close>

definition exit_events :: "calls \<Rightarrow> exc option \<Rightarrow> event list" where
  "exit_events c x =
     (case x of
        None \<Rightarrow> [ExitVM]
      | Some e \<Rightarrow> [CreateLocalRef (j9jni_createLocalRef c), ExitVM])"

definition free_chars :: "path \<Rightarrow> ptr \<Rightarrow> event list" where
  "free_chars p q = (if q \<noteq> StackBuf then [MemFree p q] else [])"

definition closed :: "int \<times> int \<Rightarrow> locals \<Rightarrow> locals" where
  "closed r l = (if 0 \<noteq> fst r then closeFailed (snd r) l else l)"

definition held :: "path \<Rightarrow> ptr \<Rightarrow> handle list" where
  "held p q = (if q = StackBuf \<or> q = Null then [] else [Str p])"

text \<open>
  The process after the two class lookups of \<^verbatim>\<open>setupJNIFieldIDs\<close> (lines 45 to 51).
\<close>

definition looked_up :: "jni_calls \<Rightarrow> process \<Rightarrow> process" where
  "looked_up j s =
     s\<lparr>made := made s @ [FindClass CRIUResultType, NewGlobalRef CRIUResultType,
                         FindClass CRIUResult, NewGlobalRef CRIUResult],
       vm := (vm s)\<lparr>criuResultTypeClass := jni_NewGlobalRef j CRIUResultType,
                      criuResultClass := jni_NewGlobalRef j CRIUResult\<rparr>\<rparr>"

subsection \<open>Concrete runs\<close>

text \<open>
  A path that fits the 256-byte buffer and one that does not; a request with only the
  image directory and one with all three paths; calls that all succeed.
\<close>

definition short_path :: str_calls where
  "short_path =
     \<lparr>copyString = StackBuf, convertSize = 10, allocateOk = True, convertString = 10\<rparr>"

definition long_path :: str_calls where
  "long_path =
     \<lparr>copyString = Heap 301, convertSize = 300, allocateOk = True, convertString = 300\<rparr>"

definition request_plain :: request where
  "request_plain =
     \<lparr>imagesDir = Some ''/tmp/img'', leaveRunning = 0, shellJob = 0, extUnixSupport = 0,
      logLevel = 0, logFile = None, fileLocks = 0, workDir = None\<rparr>"

definition request_full :: request where
  "request_full =
     \<lparr>imagesDir = Some ''/tmp/img'', leaveRunning = 1, shellJob = 0, extUnixSupport = 0,
      logLevel = 2, logFile = Some ''criu.log'', fileLocks = 0, workDir = Some ''/tmp/work''\<rparr>"

definition calls_ok :: calls where
  "calls_ok =
     \<lparr>vm_isCheckpointAllowed = True, imagesDir_str = short_path, logFile_str = short_path,
      open_imagesDir = (3, 0), workDir_str = short_path, open_workDir = (4, 0),
      criu_init_opts = 0, jvmCheckpointHooks = True, criu_dump = 0, jvmRestoreHooks = True,
      close_workDirFD = (0, 0), close_dirFD = (0, 0), j9jni_createLocalRef = True\<rparr>"

definition jni_ok :: jni_calls where
  "jni_ok =
     \<lparr>vm_isCRIUSupportEnabled = True, vm_checkpointAllowed = True, criu_init_opts_query = 0,
      jni_FindClass = (\<lambda>k. Some 1),
      jni_NewGlobalRef = (\<lambda>k. case k of CRIUResultType \<Rightarrow> Some 10 | CRIUResult \<Rightarrow> Some 11),
      jni_GetStaticFieldID = (\<lambda>t. Some 20), jni_GetMethodID = Some 30\<rparr>"

definition fresh_vm :: javaVM where
  "fresh_vm =
     \<lparr>criuResultTypeClass = None, criuResultClass = None, criuSupportSuccess = None,
      criuSupportUnsupportedOperation = None, criuSupportInvalidArguments = None,
      criuSupportSystemCheckpointFailure = None, criuSupportJVMCheckpointFailure = None,
      criuSupportJVMRestoreFailure = None, criuResultInit = None\<rparr>"

definition fresh_process :: process where
  "fresh_process = \<lparr>vm = fresh_vm, currentException = None, made = []\<rparr>"

section \<open>Facts about the pieces\<close>

subsection \<open>Lists of calls\<close>

lemma acquired_append [simp]: "acquired (xs @ ys) = acquired xs @ acquired ys"
  by (induction xs) (auto split: option.splits)

lemma released_append [simp]: "released (xs @ ys) = released xs @ released ys"
  by (induction xs) (auto split: option.splits)

lemma before_append [simp]:
  "before P Q (xs @ ys) = (before P Q xs \<or> (list_ex P xs \<and> list_ex Q ys) \<or> before P Q ys)"
  by (induction xs) auto

lemma list_ex_eq [simp]: "list_ex ((=) x) xs = (x \<in> set xs)"
  by (auto simp: list_ex_iff)

lemma before_absent [simp]: "x \<notin> set xs \<Longrightarrow> \<not> before P ((=) x) xs"
  by (induction xs) auto

lemma events_emit [simp]: "events (emit evs r) = evs @ events r"
  by (simp add: emit_def)

lemma type_emit [simp]: "criuResultType (emit evs r) = criuResultType r"
  by (simp add: emit_def)

lemma exit_events_quiet [simp]:
  "AcquireExclusiveVMAccess \<notin> set (exit_events c x)"
  "ReleaseExclusiveVMAccess \<notin> set (exit_events c x)"
  "Open s fd \<notin> set (exit_events c x)"
  "CriuDump d \<notin> set (exit_events c x)"
  "RestoreHooks b \<notin> set (exit_events c x)"
  "\<not> list_ex close_failed (exit_events c x)"
  "\<not> list_ex dump_returned (exit_events c x)"
  "\<not> list_ex handle_release (exit_events c x)"
  "count_list (exit_events c x) AcquireExclusiveVMAccess = 0"
  "count_list (exit_events c x) ReleaseExclusiveVMAccess = 0"
  "acquired (exit_events c x) = []"
  "released (exit_events c x) = []"
  by (auto simp: exit_events_def handle_release_def split: option.splits)

lemma free_chars_quiet [simp]:
  "AcquireExclusiveVMAccess \<notin> set (free_chars p q)"
  "ReleaseExclusiveVMAccess \<notin> set (free_chars p q)"
  "Open s fd \<notin> set (free_chars p q)"
  "CriuDump d \<notin> set (free_chars p q)"
  "RestoreHooks b \<notin> set (free_chars p q)"
  "\<not> list_ex close_failed (free_chars p q)"
  "\<not> list_ex dump_returned (free_chars p q)"
  "count_list (free_chars p q) AcquireExclusiveVMAccess = 0"
  "count_list (free_chars p q) ReleaseExclusiveVMAccess = 0"
  "acquired (free_chars p q) = []"
  "released (free_chars p q) = held p q"
  by (auto simp: free_chars_def held_def)

subsection \<open>The cleanup labels\<close>

lemma closed_fields [simp]:
  "dirFD (closed r l) = dirFD l"
  "workDirFD (closed r l) = workDirFD l"
  "directoryChars (closed r l) = directoryChars l"
  "logFileChars (closed r l) = logFileChars l"
  "workDirChars (closed r l) = workDirChars l"
  "isAfterCheckpoint (closed r l) = isAfterCheckpoint l"
  by (simp_all add: closed_def closeFailed_def Let_def)

lemma resultType_closed:
  "resultType (closed r l) =
     (if 0 \<noteq> fst r then
        (if isAfterCheckpoint l then JVM_RESTORE_FAILURE else JVM_CHECKPOINT_FAILURE)
      else resultType l)"
  by (simp add: closed_def closeFailed_def Let_def)

lemma events_freeDir:
  "events (freeDir c l) =
     free_chars ImagesDir (directoryChars l) @ exit_events c (exception l)"
  by (simp add: freeDir_def free_chars_def exit_events_def constructResult_def
      split: option.splits)

lemma type_freeDir: "criuResultType (freeDir c l) = resultType l"
  by (simp add: freeDir_def constructResult_def split: option.splits)

lemma events_freeLog:
  "events (freeLog c l) =
     free_chars LogFile (logFileChars l) @ free_chars ImagesDir (directoryChars l)
       @ exit_events c (exception l)"
  by (simp add: freeLog_def free_chars_def events_freeDir)

lemma type_freeLog: "criuResultType (freeLog c l) = resultType l"
  by (simp add: freeLog_def type_freeDir)

lemma freeWorkDir_closed:
  "freeWorkDir c l =
     emit (Close DirFD (dirFD l) (fst (close_dirFD c)) # free_chars WorkDir (workDirChars l))
       (freeLog c (closed (close_dirFD c) l))"
  by (simp add: freeWorkDir_def closed_def free_chars_def emit_def split_beta Let_def
      closeFailed_def)

lemma events_freeWorkDir:
  "events (freeWorkDir c l) =
     Close DirFD (dirFD l) (fst (close_dirFD c)) # free_chars WorkDir (workDirChars l)
       @ free_chars LogFile (logFileChars l) @ free_chars ImagesDir (directoryChars l)
       @ exit_events c (exception (closed (close_dirFD c) l))"
  by (simp add: freeWorkDir_closed events_freeLog)

lemma type_freeWorkDir:
  "criuResultType (freeWorkDir c l) = resultType (closed (close_dirFD c) l)"
  by (simp add: freeWorkDir_closed type_freeLog)

lemma closeWorkDirFD_closed:
  "closeWorkDirFD c l =
     emit [Close WorkDirFD (workDirFD l) (fst (close_workDirFD c))]
       (freeWorkDir c (closed (close_workDirFD c) l))"
  by (simp add: closeWorkDirFD_def closed_def split_beta Let_def)

lemma events_closeWorkDirFD:
  "events (closeWorkDirFD c l) =
     Close WorkDirFD (workDirFD l) (fst (close_workDirFD c))
       # Close DirFD (dirFD l) (fst (close_dirFD c)) # free_chars WorkDir (workDirChars l)
       @ free_chars LogFile (logFileChars l) @ free_chars ImagesDir (directoryChars l)
       @ exit_events c (exception (closed (close_dirFD c) (closed (close_workDirFD c) l)))"
  by (simp add: closeWorkDirFD_closed events_freeWorkDir)

lemma type_closeWorkDirFD:
  "criuResultType (closeWorkDirFD c l) =
     resultType (closed (close_dirFD c) (closed (close_workDirFD c) l))"
  by (simp add: closeWorkDirFD_closed type_freeWorkDir)

lemma events_releaseExclusive:
  "events (releaseExclusive c l) = ReleaseExclusiveVMAccess # events (closeWorkDirFD c l)"
  by (simp add: releaseExclusive_def)

lemma type_releaseExclusive:
  "criuResultType (releaseExclusive c l) = criuResultType (closeWorkDirFD c l)"
  by (simp add: releaseExclusive_def)

lemmas label_events =
  events_freeDir events_freeLog events_freeWorkDir events_closeWorkDirFD
  events_releaseExclusive

lemmas label_types =
  type_freeDir type_freeLog type_freeWorkDir type_closeWorkDirFD type_releaseExclusive

subsection \<open>\<^verbatim>\<open>getNativeString\<close>\<close>

text \<open>
  The unsigned \<open>requiredConvertedStringSize\<close> is never below 0, so the helper never
  answers \<open>INVALID_ARGUMENTS\<close>: when it fails, it fails with \<open>JVM_CHECKPOINT_FAILURE\<close>.
\<close>

lemma getNativeString_type:
  assumes "getNativeString p c x ns rt = Inr (res, s, rt', x', evs)"
  shows "rt' = (if res then rt else JVM_CHECKPOINT_FAILURE)"
  using assms by (auto simp: getNativeString_def Let_def split: if_splits)

lemma getNativeString_helper_events:
  assumes "getNativeString p c x ns rt = Inr (res, s, rt', x', evs)"
  shows "\<forall>e\<in>set evs. helper_event e"
  using assms
  by (auto simp: getNativeString_def getNativeString_free_def Let_def split: if_splits)

lemma helper_events_quiet:
  assumes "\<forall>e\<in>set evs. helper_event e"
  shows "AcquireExclusiveVMAccess \<notin> set evs"
    and "ReleaseExclusiveVMAccess \<notin> set evs"
    and "Open sl fd \<notin> set evs"
    and "CriuDump d \<notin> set evs"
    and "RestoreHooks b \<notin> set evs"
    and "\<not> list_ex close_failed evs"
    and "\<not> list_ex dump_returned evs"
    and "\<not> list_ex handle_release evs"
    and "count_list evs AcquireExclusiveVMAccess = 0"
    and "count_list evs ReleaseExclusiveVMAccess = 0"
proof -
  show "AcquireExclusiveVMAccess \<notin> set evs" "ReleaseExclusiveVMAccess \<notin> set evs"
    "Open sl fd \<notin> set evs" "CriuDump d \<notin> set evs" "RestoreHooks b \<notin> set evs"
    using assms by auto
  then show "count_list evs AcquireExclusiveVMAccess = 0"
    "count_list evs ReleaseExclusiveVMAccess = 0"
    by (simp_all add: count_list_0_iff)
  show "\<not> list_ex close_failed evs" "\<not> list_ex dump_returned evs"
    using assms by (auto simp: list_ex_iff elim!: close_failed.elims dump_returned.elims)
  show "\<not> list_ex handle_release evs"
    using assms
    by (auto simp: list_ex_iff handle_release_def split: option.splits
        elim!: helper_event.elims)
qed

lemmas getNativeString_quiet [simp] =
  helper_events_quiet [OF getNativeString_helper_events]

lemma getNativeString_held [simp]:
  assumes "getNativeString p c x StackBuf rt = Inr (res, s, rt', x', evs)"
  shows "acquired evs = held p s" and "released evs = []"
  using assms
  by (auto simp: getNativeString_def getNativeString_free_def Let_def held_def
      split: if_splits)

subsection \<open>From \<^verbatim>\<open>criu_init_opts\<close> to the end (lines 276 to 369)\<close>

lemmas late_defs = checkpoint_configure_def checkpoint_exclusive_def

lemmas early_defs =
  checkpointJVMImpl_def checkpoint_log_def checkpoint_open_def checkpoint_workDir_def

lemma configure_type:
  assumes "\<not> isAfterCheckpoint l"
  shows "criuResultType (checkpoint_configure rq c l) =
     (if 0 \<noteq> criu_init_opts c \<or> \<not> jvmCheckpointHooks c \<or> criu_dump c < 0 then
        (if 0 \<noteq> fst (close_workDirFD c) \<or> 0 \<noteq> fst (close_dirFD c) then
           JVM_CHECKPOINT_FAILURE
         else if 0 = criu_init_opts c \<and> \<not> jvmCheckpointHooks c then JVM_CHECKPOINT_FAILURE
         else SYSTEM_CHECKPOINT_FAILURE)
      else
        (if 0 \<noteq> fst (close_workDirFD c) \<or> 0 \<noteq> fst (close_dirFD c)
            \<or> \<not> jvmRestoreHooks c then JVM_RESTORE_FAILURE
         else SUCCESS))"
  using assms by (simp add: late_defs Let_def label_types resultType_closed)

lemma configure_close_failed:
  "list_ex close_failed (events (checkpoint_configure rq c l)) =
     (0 \<noteq> fst (close_workDirFD c) \<or> 0 \<noteq> fst (close_dirFD c))"
  by (auto simp: late_defs Let_def label_events)

lemma configure_dump_returned:
  "list_ex dump_returned (events (checkpoint_configure rq c l)) =
     (0 = criu_init_opts c \<and> jvmCheckpointHooks c \<and> 0 \<le> criu_dump c)"
  by (auto simp: late_defs Let_def label_events)

lemma configure_dump:
  "CriuDump d \<in> set (events (checkpoint_configure rq c l)) =
     (0 = criu_init_opts c \<and> jvmCheckpointHooks c \<and> d = criu_dump c)"
  by (auto simp: late_defs Let_def label_events)

lemma configure_restore_hooks:
  "RestoreHooks b \<in> set (events (checkpoint_configure rq c l)) =
     (0 = criu_init_opts c \<and> jvmCheckpointHooks c \<and> 0 \<le> criu_dump c
      \<and> b = jvmRestoreHooks c)"
  by (auto simp: late_defs Let_def label_events)

lemma configure_dump_before_restore:
  "before ((=) (CriuDump d)) ((=) (RestoreHooks b)) (events (checkpoint_configure rq c l)) =
     (0 = criu_init_opts c \<and> jvmCheckpointHooks c \<and> 0 \<le> criu_dump c
      \<and> d = criu_dump c \<and> b = jvmRestoreHooks c)"
  by (auto simp: late_defs Let_def label_events)

lemma configure_open: "Open s fd \<notin> set (events (checkpoint_configure rq c l))"
  by (simp add: late_defs Let_def label_events)

lemma configure_acquire:
  "AcquireExclusiveVMAccess \<in> set (events (checkpoint_configure rq c l)) =
     (0 = criu_init_opts c)"
  "count_list (events (checkpoint_configure rq c l)) AcquireExclusiveVMAccess =
     (if 0 = criu_init_opts c then 1 else 0)"
  by (auto simp: late_defs Let_def label_events)

lemma configure_release:
  "ReleaseExclusiveVMAccess \<in> set (events (checkpoint_configure rq c l)) =
     (0 = criu_init_opts c)"
  "count_list (events (checkpoint_configure rq c l)) ReleaseExclusiveVMAccess =
     (if 0 = criu_init_opts c then 1 else 0)"
  "before ((=) AcquireExclusiveVMAccess) ((=) ReleaseExclusiveVMAccess)
     (events (checkpoint_configure rq c l)) = (0 = criu_init_opts c)"
  "\<not> before handle_release ((=) ReleaseExclusiveVMAccess)
       (events (checkpoint_configure rq c l))"
  by (auto simp: late_defs Let_def label_events handle_release_def)

lemma configure_handles:
  "acquired (events (checkpoint_configure rq c l)) = []"
  "released (events (checkpoint_configure rq c l)) =
     FD WorkDirFD # FD DirFD # held WorkDir (workDirChars l) @ held LogFile (logFileChars l)
       @ held ImagesDir (directoryChars l)"
  by (simp_all add: late_defs Let_def label_events)

lemmas configure_facts =
  configure_close_failed configure_dump_returned configure_dump configure_restore_hooks
  configure_dump_before_restore configure_open configure_acquire configure_release configure_handles

subsection \<open>Evaluating a concrete run\<close>

lemmas run_defs =
  early_defs late_defs releaseExclusive_def closeWorkDirFD_def freeWorkDir_def freeLog_def
  freeDir_def closeFailed_def emit_def constructResult_def getNativeString_def
  getNativeString_free_def STRING_BUFFER_SIZE_def setNativeOutOfMemoryError_def
  setCurrentExceptionNLSWithArgs_def Let_def
  short_path_def long_path_def request_plain_def request_full_def calls_ok_def

lemmas query_defs =
  isCRIUSupportEnabledImpl_def setupJNIFieldIDs_def setupJNIFieldIDs_fields_def
  bind_process_def Assert_CRIU_notNull_def call_def Let_def setNativeOutOfMemoryError_def

section \<open>The checkpoint native\<close>

subsection \<open>Handles are released once, and only if acquired\<close>

text \<open>
  C1. Every handle acquired by a checkpoint (the image-directory descriptor, the
  work-directory descriptor, a heap-allocated path string) is released exactly once on
  every way out, and nothing is released that was not acquired; without a work
  directory there is no close for a work-directory descriptor.

  The code does not do this. \<^verbatim>\<open>close(workDirFD)\<close> at the label \<^verbatim>\<open>closeWorkDirFD\<close> is not
  guarded by \<^verbatim>\<open>NULL != workDir\<close>, as \<^verbatim>\<open>criu_set_work_dir_fd(workDirFD)\<close> in line 294 is.
  With no work directory, the slot still holds its initial 0, and the successful run
  below closes descriptor 0 through it: one handle is acquired, two are released.
\<close>

theorem close_of_unopened_workDirFD:
  "checkpointJVMImpl request_plain calls_ok None =
     Inr \<lparr>criuResultType = SUCCESS, criuThrowable = None, pending = None,
          events =
            [EnterVM, CopyStringToUTF8 ImagesDir StackBuf, StrConvert ImagesDir 10,
             StrConvert ImagesDir 10, Open DirFD 3, CriuInitOpts 0, CriuSetImagesDirFd 3,
             CriuSetShellJob False, CriuSetLeaveRunning False, CriuSetExtUnixSk False,
             CriuSetFileLocks False, AcquireExclusiveVMAccess, CheckpointHooks True,
             CriuDump 0, RestoreHooks True, ReleaseExclusiveVMAccess,
             Close WorkDirFD 0 0, Close DirFD 3 0, ExitVM]\<rparr>
   \<and> map_sum id (\<lambda>r. acquired (events r)) (checkpointJVMImpl request_plain calls_ok None)
       = Inr [FD DirFD]
   \<and> map_sum id (\<lambda>r. released (events r)) (checkpointJVMImpl request_plain calls_ok None)
       = Inr [FD WorkDirFD, FD DirFD]"
  by (simp add: run_defs)

text \<open>
  The rest of the claim holds: a handle that was acquired is released exactly once, and
  the only release without an acquisition is that close.
\<close>

lemma held_count [simp]:
  "count_list (held p q) h = (if h = Str p \<and> q \<noteq> StackBuf \<and> q \<noteq> Null then 1 else 0)"
  by (simp add: held_def)

lemma acquired_handle_released_once:
  assumes "checkpointJVMImpl rq c x = Inr r"
    and "h \<in> set (acquired (events r))"
  shows "count_list (released (events r)) h = 1"
  using assms
  by (auto simp: early_defs configure_facts Let_def label_events constructResult_def
      held_def split: if_splits sum.splits prod.splits)

lemma released_handle_acquired:
  assumes "checkpointJVMImpl rq c x = Inr r"
    and "h \<in> set (released (events r))"
  shows "h \<in> set (acquired (events r)) \<or> (h = FD WorkDirFD \<and> workDir rq = None)"
  using assms
  by (auto simp: early_defs configure_facts Let_def label_events constructResult_def
      held_def split: if_splits sum.splits prod.splits)

subsection \<open>A failed close and the result type\<close>

text \<open>
  C2. When a close fails during cleanup, the failure replaces the outcome only if the
  outcome so far was a success; it never replaces an earlier, more specific failure
  (such as \<open>SYSTEM_CHECKPOINT_FAILURE\<close> from a failed dump), except through the
  after-checkpoint branch that turns a post-dump outcome into \<open>JVM_RESTORE_FAILURE\<close>.

  As amended: a failed close replaces the outcome whatever it was, by
  \<open>JVM_RESTORE_FAILURE\<close> when \<^verbatim>\<open>criu_dump\<close> had returned control (a non-negative
  status) and by \<open>JVM_CHECKPOINT_FAILURE\<close> otherwise.
\<close>

theorem close_failure_sets_type:
  assumes "checkpointJVMImpl rq c x = Inr r"
    and "list_ex close_failed (events r)"
  shows "criuResultType r =
    (if list_ex dump_returned (events r) then JVM_RESTORE_FAILURE
     else JVM_CHECKPOINT_FAILURE)"
  using assms
  by (auto simp: early_defs Let_def label_events label_types constructResult_def
      resultType_closed configure_facts configure_type
      split: if_splits sum.splits prod.splits)

text \<open>
  The dump fails with \<open>-1\<close> and the close of the work directory fails too: the result is
  \<open>JVM_CHECKPOINT_FAILURE\<close>, where the same run with a close that succeeds gives
  \<open>SYSTEM_CHECKPOINT_FAILURE\<close>.
\<close>

theorem close_failure_replaces_dump_failure:
  "checkpointJVMImpl request_full
     (calls_ok\<lparr>criu_dump := - 1, close_workDirFD := (- 1, 5)\<rparr>) None =
     Inr \<lparr>criuResultType = JVM_CHECKPOINT_FAILURE,
          criuThrowable = Some (InternalError FAILED_TO_CLOSE_DIR 5), pending = None,
          events =
            [EnterVM, CopyStringToUTF8 ImagesDir StackBuf, StrConvert ImagesDir 10,
             StrConvert ImagesDir 10, CopyStringToUTF8 LogFile StackBuf,
             StrConvert LogFile 10, StrConvert LogFile 10, Open DirFD 3,
             CopyStringToUTF8 WorkDir StackBuf, StrConvert WorkDir 10,
             StrConvert WorkDir 10, Open WorkDirFD 4, CriuInitOpts 0,
             CriuSetImagesDirFd 3, CriuSetShellJob False, CriuSetLogLevel 2,
             CriuSetLogFile StackBuf, CriuSetLeaveRunning True, CriuSetExtUnixSk False,
             CriuSetFileLocks False, CriuSetWorkDirFd 4, AcquireExclusiveVMAccess,
             CheckpointHooks True, CriuDump (- 1), ReleaseExclusiveVMAccess,
             Close WorkDirFD 4 (- 1), Close DirFD 3 0, CreateLocalRef True, ExitVM]\<rparr>
   \<and> map_sum id criuResultType
         (checkpointJVMImpl request_full (calls_ok\<lparr>criu_dump := - 1\<rparr>) None)
       = Inr SYSTEM_CHECKPOINT_FAILURE"
  by (simp add: run_defs)

theorem close_failure_sets_type_witness:
  "map_sum id (\<lambda>r. (list_ex close_failed (events r), list_ex dump_returned (events r),
                     criuResultType r))
     (checkpointJVMImpl request_plain
        (calls_ok\<lparr>jvmCheckpointHooks := False, close_dirFD := (- 1, 9)\<rparr>) None)
   = Inr (True, False, JVM_CHECKPOINT_FAILURE)"
proof -
  let ?c = "calls_ok\<lparr>jvmCheckpointHooks := False, close_dirFD := (- 1, 9)\<rparr>"
  obtain r where run: "checkpointJVMImpl request_plain ?c None = Inr r"
    and evs: "list_ex close_failed (events r)"
    and nodump: "\<not> list_ex dump_returned (events r)"
    by (simp add: run_defs)
  from close_failure_sets_type [OF run evs] nodump
  have "criuResultType r = JVM_CHECKPOINT_FAILURE" by simp
  with run evs nodump show ?thesis by simp
qed

subsection \<open>Exclusive VM access\<close>



subsection \<open>The permission gate\<close>

text \<open>
  C4. When checkpointing is not allowed for the process, the result is
  \<open>UNSUPPORTED_OPERATION\<close>, no handle is opened and nothing else of the checkpoint path
  happens: no call is made, and the pending exception is left as it was.
\<close>

theorem not_allowed_is_unsupported:
  assumes "\<not> vm_isCheckpointAllowed c"
  shows "checkpointJVMImpl rq c x =
    Inr \<lparr>criuResultType = UNSUPPORTED_OPERATION, criuThrowable = None, pending = x,
         events = []\<rparr>"
  using assms by (simp add: checkpointJVMImpl_def constructResult_def)

theorem not_allowed_is_unsupported_witness:
  "\<not> vm_isCheckpointAllowed (calls_ok\<lparr>vm_isCheckpointAllowed := False\<rparr>)
   \<and> checkpointJVMImpl request_full (calls_ok\<lparr>vm_isCheckpointAllowed := False\<rparr>) None =
       Inr \<lparr>criuResultType = UNSUPPORTED_OPERATION, criuThrowable = None, pending = None,
            events = []\<rparr>"
proof -
  have gate: "\<not> vm_isCheckpointAllowed (calls_ok\<lparr>vm_isCheckpointAllowed := False\<rparr>)"
    by simp
  from not_allowed_is_unsupported [OF gate, of request_full None] gate
  show ?thesis by simp
qed

subsection \<open>An image directory that cannot be opened\<close>

text \<open>
  C5. When \<^verbatim>\<open>open\<close> of the image directory with \<^verbatim>\<open>O_DIRECTORY\<close> fails, the result is
  \<open>INVALID_ARGUMENTS\<close> and exclusive VM access is never acquired in that call.
\<close>

theorem image_directory_open_fails:
  assumes "checkpointJVMImpl rq c x = Inr r"
    and "Open DirFD fd \<in> set (events r)"
    and "fd < 0"
  shows "criuResultType r = INVALID_ARGUMENTS
    \<and> AcquireExclusiveVMAccess \<notin> set (events r)"
  using assms
  by (auto simp: early_defs Let_def label_events label_types constructResult_def
      configure_facts split: if_splits sum.splits prod.splits)

theorem image_directory_open_fails_witness:
  "map_sum id
     (\<lambda>r. (Open DirFD (- 1) \<in> set (events r), criuResultType r,
           AcquireExclusiveVMAccess \<in> set (events r)))
     (checkpointJVMImpl request_full (calls_ok\<lparr>open_imagesDir := (- 1, 2)\<rparr>) None)
   = Inr (True, INVALID_ARGUMENTS, False)"
proof -
  obtain r where run:
      "checkpointJVMImpl request_full (calls_ok\<lparr>open_imagesDir := (- 1, 2)\<rparr>) None = Inr r"
    and op: "Open DirFD (- 1) \<in> set (events r)"
    by (simp add: run_defs)
  from image_directory_open_fails [OF run op] run op show ?thesis by simp
qed

subsection \<open>The restore hooks\<close>

text \<open>
  C6. When \<^verbatim>\<open>criu_dump\<close> succeeds, the restore hooks run, and when they fail the result
  is \<open>JVM_RESTORE_FAILURE\<close>, not \<open>JVM_CHECKPOINT_FAILURE\<close>.
\<close>

theorem restore_hooks_run_after_dump:
  assumes "checkpointJVMImpl rq c x = Inr r"
    and "CriuDump d \<in> set (events r)"
    and "0 \<le> d"
  shows "RestoreHooks (jvmRestoreHooks c) \<in> set (events r)
    \<and> before ((=) (CriuDump d)) ((=) (RestoreHooks (jvmRestoreHooks c))) (events r)
    \<and> (RestoreHooks False \<in> set (events r) \<longrightarrow> criuResultType r = JVM_RESTORE_FAILURE)"
  using assms
  by (auto simp: early_defs Let_def label_events label_types constructResult_def
      configure_facts configure_type split: if_splits sum.splits prod.splits)

theorem restore_hooks_run_after_dump_witness:
  "map_sum id
     (\<lambda>r. (CriuDump 0 \<in> set (events r), RestoreHooks False \<in> set (events r),
           before ((=) (CriuDump 0)) ((=) (RestoreHooks False)) (events r),
           criuResultType r))
     (checkpointJVMImpl request_plain (calls_ok\<lparr>jvmRestoreHooks := False\<rparr>) None)
   = Inr (True, True, True, JVM_RESTORE_FAILURE)"
proof -
  obtain r where run:
      "checkpointJVMImpl request_plain (calls_ok\<lparr>jvmRestoreHooks := False\<rparr>) None = Inr r"
    and dump: "CriuDump 0 \<in> set (events r)"
    by (simp add: run_defs)
  have "jvmRestoreHooks (calls_ok\<lparr>jvmRestoreHooks := False\<rparr>) = False" by simp
  with restore_hooks_run_after_dump [OF run dump] run dump show ?thesis by simp
qed

subsection \<open>The status of \<^verbatim>\<open>criu_dump\<close>\<close>

text \<open>
  C7. When \<^verbatim>\<open>criu_dump\<close> returns a negative status the result is
  \<open>SYSTEM_CHECKPOINT_FAILURE\<close>; any non-negative status that hands control back is
  treated as a successful dump.

  As amended: when \<^verbatim>\<open>criu_dump\<close> returns a negative status the result is
  \<open>SYSTEM_CHECKPOINT_FAILURE\<close> if the closes that follow succeed, and
  \<open>JVM_CHECKPOINT_FAILURE\<close> if one of them fails. After a non-negative status the dump
  counts as done: the restore hooks run, and the result is \<open>SUCCESS\<close>, or
  \<open>JVM_RESTORE_FAILURE\<close> if the restore hooks or a close fail.
\<close>

theorem dump_status_decides_type:
  assumes "checkpointJVMImpl rq c x = Inr r"
    and "CriuDump d \<in> set (events r)"
  shows "criuResultType r =
      (if d < 0 then
         (if list_ex close_failed (events r) then JVM_CHECKPOINT_FAILURE
          else SYSTEM_CHECKPOINT_FAILURE)
       else if list_ex close_failed (events r) \<or> RestoreHooks False \<in> set (events r) then
         JVM_RESTORE_FAILURE
       else SUCCESS)
    \<and> (\<exists>b. RestoreHooks b \<in> set (events r)) = (0 \<le> d)"
  using assms
  by (auto simp: early_defs Let_def label_events label_types constructResult_def
      configure_facts configure_type split: if_splits sum.splits prod.splits)

text \<open>
  The dump fails with \<open>-1\<close> and the close of the image directory fails afterwards: the
  result is \<open>JVM_CHECKPOINT_FAILURE\<close>.
\<close>

theorem failed_dump_not_system_failure:
  "checkpointJVMImpl request_plain
     (calls_ok\<lparr>criu_dump := - 1, close_dirFD := (- 1, 9)\<rparr>) None =
     Inr \<lparr>criuResultType = JVM_CHECKPOINT_FAILURE,
          criuThrowable = Some (InternalError FAILED_TO_CLOSE_DIR 9), pending = None,
          events =
            [EnterVM, CopyStringToUTF8 ImagesDir StackBuf, StrConvert ImagesDir 10,
             StrConvert ImagesDir 10, Open DirFD 3, CriuInitOpts 0, CriuSetImagesDirFd 3,
             CriuSetShellJob False, CriuSetLeaveRunning False, CriuSetExtUnixSk False,
             CriuSetFileLocks False, AcquireExclusiveVMAccess, CheckpointHooks True,
             CriuDump (- 1), ReleaseExclusiveVMAccess, Close WorkDirFD 0 0,
             Close DirFD 3 (- 1), CreateLocalRef True, ExitVM]\<rparr>"
  by (simp add: run_defs)

theorem dump_status_decides_type_witness:
  "map_sum id
     (\<lambda>r. (CriuDump (- 1) \<in> set (events r), list_ex close_failed (events r),
           criuResultType r))
     (checkpointJVMImpl request_full (calls_ok\<lparr>criu_dump := - 1\<rparr>) None)
   = Inr (True, False, SYSTEM_CHECKPOINT_FAILURE)"
proof -
  obtain r where run:
      "checkpointJVMImpl request_full (calls_ok\<lparr>criu_dump := - 1\<rparr>) None = Inr r"
    and dump: "CriuDump (- 1) \<in> set (events r)"
    and closes: "\<not> list_ex close_failed (events r)"
    by (simp add: run_defs)
  from dump_status_decides_type [OF run dump] closes
  have "criuResultType r = SYSTEM_CHECKPOINT_FAILURE" by simp
  with run dump closes show ?thesis by simp
qed

subsection \<open>The order of releases\<close>

text \<open>
  C8. Handles are released in the reverse of the order in which they were acquired: if
  \<open>a\<close> was acquired before \<open>b\<close>, then \<open>b\<close> is released before \<open>a\<close>, on every way out on
  which both were acquired.

  As amended: this holds for every pair of handles but one. The image-directory
  descriptor is opened before the work-directory path is converted, and it is closed
  before that string is freed: the label \<^verbatim>\<open>freeWorkDir\<close> closes \<^verbatim>\<open>dirFD\<close> first and frees
  \<^verbatim>\<open>workDirChars\<close> after.
\<close>

theorem release_in_reverse_order:
  assumes "checkpointJVMImpl rq c x = Inr r"
    and "before ((=) a) ((=) b) (acquired (events r))"
    and "(a, b) \<noteq> (FD DirFD, Str WorkDir)"
  shows "before ((=) b) ((=) a) (released (events r))"
  using assms
  by (auto simp: early_defs configure_facts Let_def label_events constructResult_def
      held_def split: if_splits sum.splits prod.splits)

text \<open>
  A work directory whose path needs 301 bytes: the descriptor of the image directory is
  acquired before the string, and released before it too.
\<close>

theorem image_descriptor_closed_before_string_freed:
  "map_sum id (\<lambda>r. (acquired (events r), released (events r)))
     (checkpointJVMImpl request_full (calls_ok\<lparr>workDir_str := long_path\<rparr>) None)
   = Inr ([FD DirFD, Str WorkDir, FD WorkDirFD], [FD WorkDirFD, FD DirFD, Str WorkDir])
   \<and> before ((=) (FD DirFD)) ((=) (Str WorkDir)) [FD DirFD, Str WorkDir, FD WorkDirFD]
   \<and> \<not> before ((=) (Str WorkDir)) ((=) (FD DirFD)) [FD WorkDirFD, FD DirFD, Str WorkDir]"
  by (simp add: run_defs)

theorem release_in_reverse_order_witness:
  "map_sum id
     (\<lambda>r. (before ((=) (Str ImagesDir)) ((=) (FD DirFD)) (acquired (events r)),
           before ((=) (FD DirFD)) ((=) (Str ImagesDir)) (released (events r))))
     (checkpointJVMImpl request_full (calls_ok\<lparr>imagesDir_str := long_path\<rparr>) None)
   = Inr (True, True)"
proof -
  obtain r where run:
      "checkpointJVMImpl request_full (calls_ok\<lparr>imagesDir_str := long_path\<rparr>) None = Inr r"
    and acq: "before ((=) (Str ImagesDir)) ((=) (FD DirFD)) (acquired (events r))"
    by (simp add: run_defs)
  have "(Str ImagesDir, FD DirFD) \<noteq> (FD DirFD, Str WorkDir)" by simp
  from release_in_reverse_order [OF run acq this] run acq show ?thesis by simp
qed

subsection \<open>Failures of the string conversion\<close>

text \<open>
  C10. When converting a path fails because native memory cannot be allocated, the
  result is \<open>JVM_CHECKPOINT_FAILURE\<close>; when the encoding conversion itself fails, the
  result is \<open>INVALID_ARGUMENTS\<close>.

  The code does not do the second. Both tests \<^verbatim>\<open>requiredConvertedStringSize < 0\<close> (lines
  151 and 180) compare an unsigned \<^verbatim>\<open>UDATA\<close> with 0 and never hold, so the branches that
  set \<open>INVALID_ARGUMENTS\<close> are dead. A conversion that fails with the error code \<open>-2\<close>
  becomes a request for \<open>2\<^sup>6\<^sup>4 - 1\<close> bytes; when that allocation fails, the helper
  answers \<open>JVM_CHECKPOINT_FAILURE\<close> with an out-of-memory error.
\<close>

theorem conversion_error_not_invalid_arguments:
  "getNativeString ImagesDir (short_path\<lparr>convertSize := - 2, allocateOk := False\<rparr>) None
     StackBuf UNSUPPORTED_OPERATION =
     Inr (False, Null, JVM_CHECKPOINT_FAILURE, Some NativeOutOfMemoryError,
          [CopyStringToUTF8 ImagesDir StackBuf, StrConvert ImagesDir (- 2),
           MemAllocate ImagesDir (- 1) Null])
   \<and> checkpointJVMImpl request_plain
       (calls_ok\<lparr>imagesDir_str := short_path\<lparr>convertSize := - 2, allocateOk := False\<rparr>\<rparr>)
       None =
     Inr \<lparr>criuResultType = JVM_CHECKPOINT_FAILURE,
          criuThrowable = Some NativeOutOfMemoryError, pending = None,
          events =
            [EnterVM, CopyStringToUTF8 ImagesDir StackBuf, StrConvert ImagesDir (- 2),
             MemAllocate ImagesDir (- 1) Null, MemFree ImagesDir Null,
             CreateLocalRef True, ExitVM]\<rparr>"
  by (simp add: run_defs)

section \<open>The two queries\<close>

subsection \<open>What \<^verbatim>\<open>setupJNIFieldIDs\<close> changes\<close>

lemma setupJNIFieldIDs_fields_effects:
  assumes "setupJNIFieldIDs_fields j s = Inr s'"
  shows "criuResultTypeClass (vm s') = criuResultTypeClass (vm s)"
    and "criuResultClass (vm s') = criuResultClass (vm s)"
    and "currentException s' = currentException s"
    and "made s' = made s @
           [GetStaticFieldID SUCCESS, GetStaticFieldID UNSUPPORTED_OPERATION,
            GetStaticFieldID INVALID_ARGUMENTS, GetStaticFieldID SYSTEM_CHECKPOINT_FAILURE,
            GetStaticFieldID JVM_CHECKPOINT_FAILURE, GetStaticFieldID JVM_RESTORE_FAILURE,
            GetMethodID]"
    and "criuSupportSuccess (vm s') = jni_GetStaticFieldID j SUCCESS"
    and "criuSupportUnsupportedOperation (vm s') = jni_GetStaticFieldID j UNSUPPORTED_OPERATION"
    and "criuSupportInvalidArguments (vm s') = jni_GetStaticFieldID j INVALID_ARGUMENTS"
    and "criuSupportSystemCheckpointFailure (vm s') =
           jni_GetStaticFieldID j SYSTEM_CHECKPOINT_FAILURE"
    and "criuSupportJVMCheckpointFailure (vm s') = jni_GetStaticFieldID j JVM_CHECKPOINT_FAILURE"
    and "criuSupportJVMRestoreFailure (vm s') = jni_GetStaticFieldID j JVM_RESTORE_FAILURE"
    and "criuResultInit (vm s') = jni_GetMethodID j"
    and "jni_GetStaticFieldID j SUCCESS \<noteq> None"
    and "jni_GetStaticFieldID j UNSUPPORTED_OPERATION \<noteq> None"
    and "jni_GetStaticFieldID j INVALID_ARGUMENTS \<noteq> None"
    and "jni_GetStaticFieldID j SYSTEM_CHECKPOINT_FAILURE \<noteq> None"
    and "jni_GetStaticFieldID j JVM_CHECKPOINT_FAILURE \<noteq> None"
    and "jni_GetStaticFieldID j JVM_RESTORE_FAILURE \<noteq> None"
    and "jni_GetMethodID j \<noteq> None"
  using assms
  by (auto simp: setupJNIFieldIDs_fields_def bind_process_def Assert_CRIU_notNull_def
      call_def Let_def split: if_splits)

lemma setupJNIFieldIDs_unfold:
  "setupJNIFieldIDs j s =
     (if jni_FindClass j CRIUResultType = None \<or> jni_FindClass j CRIUResult = None then
        Inl AssertionFailed
      else if jni_NewGlobalRef j CRIUResultType \<noteq> None \<and> jni_NewGlobalRef j CRIUResult \<noteq> None
      then setupJNIFieldIDs_fields j (looked_up j s)
      else Inr ((looked_up j s)\<lparr>currentException := Some NativeOutOfMemoryError,
                 made := made (looked_up j s) @ [EnterVM, ExitVM]\<rparr>))"
  by (auto simp: setupJNIFieldIDs_def bind_process_def Assert_CRIU_notNull_def
      call_def Let_def setNativeOutOfMemoryError_def looked_up_def)

lemma looked_up_fields [simp]:
  "criuResultTypeClass (vm (looked_up j s)) = jni_NewGlobalRef j CRIUResultType"
  "criuResultClass (vm (looked_up j s)) = jni_NewGlobalRef j CRIUResult"
  "criuSupportSuccess (vm (looked_up j s)) = criuSupportSuccess (vm s)"
  "criuSupportUnsupportedOperation (vm (looked_up j s)) = criuSupportUnsupportedOperation (vm s)"
  "criuSupportInvalidArguments (vm (looked_up j s)) = criuSupportInvalidArguments (vm s)"
  "criuSupportSystemCheckpointFailure (vm (looked_up j s)) =
     criuSupportSystemCheckpointFailure (vm s)"
  "criuSupportJVMCheckpointFailure (vm (looked_up j s)) = criuSupportJVMCheckpointFailure (vm s)"
  "criuSupportJVMRestoreFailure (vm (looked_up j s)) = criuSupportJVMRestoreFailure (vm s)"
  "criuResultInit (vm (looked_up j s)) = criuResultInit (vm s)"
  "currentException (looked_up j s) = currentException s"
  "made (looked_up j s) =
     made s @ [FindClass CRIUResultType, NewGlobalRef CRIUResultType, FindClass CRIUResult,
               NewGlobalRef CRIUResult]"
  by (simp_all add: looked_up_def)

text \<open>The two ways \<^verbatim>\<open>setupJNIFieldIDs\<close> returns.\<close>

lemma setupJNIFieldIDs_both_refs:
  assumes "setupJNIFieldIDs j s = Inr s'"
    and "jni_NewGlobalRef j CRIUResultType \<noteq> None \<and> jni_NewGlobalRef j CRIUResult \<noteq> None"
  shows "setupJNIFieldIDs_fields j (looked_up j s) = Inr s'"
  using assms by (simp add: setupJNIFieldIDs_unfold split: if_splits)

lemma setupJNIFieldIDs_null_ref:
  assumes "setupJNIFieldIDs j s = Inr s'"
    and "jni_NewGlobalRef j CRIUResultType = None \<or> jni_NewGlobalRef j CRIUResult = None"
  shows "s' = (looked_up j s)\<lparr>currentException := Some NativeOutOfMemoryError,
                 made := made (looked_up j s) @ [EnterVM, ExitVM]\<rparr>"
  using assms by (auto simp: setupJNIFieldIDs_unfold split: if_splits)

lemma isCRIUSupportEnabledImpl_unfold:
  assumes "isCRIUSupportEnabledImpl j s = Inr (res, s')"
  shows "res = (vm_isCRIUSupportEnabled j \<and> criu_init_opts_query j = 0)"
    and "setupJNIFieldIDs j
           (s\<lparr>made := made s @ (if vm_isCRIUSupportEnabled j
                                 then [CriuInitOpts (criu_init_opts_query j)] else [])\<rparr>)
         = Inr s'"
  using assms
  by (auto simp: isCRIUSupportEnabledImpl_def Let_def call_def split: if_splits sum.splits)

lemma isCRIUSupportEnabledImpl_effects:
  assumes run: "isCRIUSupportEnabledImpl j s = Inr (res, s')"
  shows "res = (vm_isCRIUSupportEnabled j \<and> criu_init_opts_query j = 0)
        \<and> criuResultTypeClass (vm s') = jni_NewGlobalRef j CRIUResultType
        \<and> criuResultClass (vm s') = jni_NewGlobalRef j CRIUResult
        \<and> take (length (made s)) (made s') = made s
        \<and> (CriuInitOpts (criu_init_opts_query j) \<in> set (drop (length (made s)) (made s')))
            = vm_isCRIUSupportEnabled j
        \<and> NewGlobalRef CRIUResultType \<in> set (drop (length (made s)) (made s'))
        \<and> NewGlobalRef CRIUResult \<in> set (drop (length (made s)) (made s'))
        \<and> currentException s' =
            (if jni_NewGlobalRef j CRIUResultType = None \<or> jni_NewGlobalRef j CRIUResult = None
             then Some NativeOutOfMemoryError else currentException s)
        \<and> (if jni_NewGlobalRef j CRIUResultType = None \<or> jni_NewGlobalRef j CRIUResult = None
            then
              criuSupportSuccess (vm s') = criuSupportSuccess (vm s)
              \<and> criuSupportUnsupportedOperation (vm s') = criuSupportUnsupportedOperation (vm s)
              \<and> criuSupportInvalidArguments (vm s') = criuSupportInvalidArguments (vm s)
              \<and> criuSupportSystemCheckpointFailure (vm s') =
                  criuSupportSystemCheckpointFailure (vm s)
              \<and> criuSupportJVMCheckpointFailure (vm s') = criuSupportJVMCheckpointFailure (vm s)
              \<and> criuSupportJVMRestoreFailure (vm s') = criuSupportJVMRestoreFailure (vm s)
              \<and> criuResultInit (vm s') = criuResultInit (vm s)
              \<and> drop (length (made s)) (made s') =
                  (if vm_isCRIUSupportEnabled j then [CriuInitOpts (criu_init_opts_query j)]
                   else [])
                  @ [FindClass CRIUResultType, NewGlobalRef CRIUResultType,
                     FindClass CRIUResult, NewGlobalRef CRIUResult, EnterVM, ExitVM]
            else
              criuSupportSuccess (vm s') = jni_GetStaticFieldID j SUCCESS
              \<and> criuSupportUnsupportedOperation (vm s') =
                  jni_GetStaticFieldID j UNSUPPORTED_OPERATION
              \<and> criuSupportInvalidArguments (vm s') = jni_GetStaticFieldID j INVALID_ARGUMENTS
              \<and> criuSupportSystemCheckpointFailure (vm s') =
                  jni_GetStaticFieldID j SYSTEM_CHECKPOINT_FAILURE
              \<and> criuSupportJVMCheckpointFailure (vm s') =
                  jni_GetStaticFieldID j JVM_CHECKPOINT_FAILURE
              \<and> criuSupportJVMRestoreFailure (vm s') =
                  jni_GetStaticFieldID j JVM_RESTORE_FAILURE
              \<and> criuResultInit (vm s') = jni_GetMethodID j
              \<and> None \<notin> {criuSupportSuccess (vm s'), criuSupportUnsupportedOperation (vm s'),
                          criuSupportInvalidArguments (vm s'),
                          criuSupportSystemCheckpointFailure (vm s'),
                          criuSupportJVMCheckpointFailure (vm s'),
                          criuSupportJVMRestoreFailure (vm s'), criuResultInit (vm s')}
              \<and> drop (length (made s)) (made s') =
                  (if vm_isCRIUSupportEnabled j then [CriuInitOpts (criu_init_opts_query j)]
                   else [])
                  @ [FindClass CRIUResultType, NewGlobalRef CRIUResultType,
                     FindClass CRIUResult, NewGlobalRef CRIUResult,
                     GetStaticFieldID SUCCESS, GetStaticFieldID UNSUPPORTED_OPERATION,
                     GetStaticFieldID INVALID_ARGUMENTS,
                     GetStaticFieldID SYSTEM_CHECKPOINT_FAILURE,
                     GetStaticFieldID JVM_CHECKPOINT_FAILURE,
                     GetStaticFieldID JVM_RESTORE_FAILURE, GetMethodID])"
proof -
  define s0 where
    "s0 = s\<lparr>made := made s @ (if vm_isCRIUSupportEnabled j
                                 then [CriuInitOpts (criu_init_opts_query j)] else [])\<rparr>"
  have s0: "vm s0 = vm s" "currentException s0 = currentException s"
    "made s0 = made s @ (if vm_isCRIUSupportEnabled j
                         then [CriuInitOpts (criu_init_opts_query j)] else [])"
    by (simp_all add: s0_def)
  from isCRIUSupportEnabledImpl_unfold [OF run]
  have res: "res = (vm_isCRIUSupportEnabled j \<and> criu_init_opts_query j = 0)"
    and fields: "setupJNIFieldIDs j s0 = Inr s'"
    by (simp_all add: s0_def)
  show ?thesis
  proof (cases "jni_NewGlobalRef j CRIUResultType = None \<or> jni_NewGlobalRef j CRIUResult = None")
    case True
    note eq = setupJNIFieldIDs_null_ref [OF fields True]
    from True res show ?thesis by (simp add: eq s0)
  next
    case False
    then have both:
      "jni_NewGlobalRef j CRIUResultType \<noteq> None \<and> jni_NewGlobalRef j CRIUResult \<noteq> None"
      by simp
    note f = setupJNIFieldIDs_fields_effects [OF setupJNIFieldIDs_both_refs [OF fields both]]
    have made: "made s' = made s0 @
         [FindClass CRIUResultType, NewGlobalRef CRIUResultType,
          FindClass CRIUResult, NewGlobalRef CRIUResult,
          GetStaticFieldID SUCCESS, GetStaticFieldID UNSUPPORTED_OPERATION,
          GetStaticFieldID INVALID_ARGUMENTS, GetStaticFieldID SYSTEM_CHECKPOINT_FAILURE,
          GetStaticFieldID JVM_CHECKPOINT_FAILURE, GetStaticFieldID JVM_RESTORE_FAILURE,
          GetMethodID]"
      by (simp add: f(4))
    from False res f(12-18) show ?thesis
      by (auto simp: f(1-3) f(5-11) made s0)
  qed
qed

subsection \<open>Effects of the queries\<close>

text \<open>
  C9. \<^verbatim>\<open>isCRIUSupportEnabledImpl\<close> and \<^verbatim>\<open>isCheckpointAllowed\<close> have no side effects: each
  returns a boolean and leaves the cached metadata, the state of libcriu and the
  pending exception as they were.

  As amended: \<^verbatim>\<open>isCheckpointAllowed\<close> returns the answer of the VM and changes nothing.
  \<^verbatim>\<open>isCRIUSupportEnabledImpl\<close> returns whether CRIU support is enabled and
  \<^verbatim>\<open>criu_init_opts\<close> returned 0, and it has effects: it calls \<^verbatim>\<open>criu_init_opts\<close> when CRIU
  support is enabled, and it always runs \<^verbatim>\<open>setupJNIFieldIDs\<close>, which stores two new
  global references in the VM. When both references are there, the six field ids and
  the method id are stored as well, each the answer of its JNI lookup and none of them
  \<^verbatim>\<open>NULL\<close>; when one reference is \<^verbatim>\<open>NULL\<close>, the ids stay as they were and an
  out-of-memory error is left pending. The calls made are exactly the ones listed.
\<close>

theorem queries_effects:
  "isCheckpointAllowed j s = (vm_checkpointAllowed j, s)
   \<and> (isCRIUSupportEnabledImpl j s = Inr (res, s') \<longrightarrow>
        res = (vm_isCRIUSupportEnabled j \<and> criu_init_opts_query j = 0)
        \<and> criuResultTypeClass (vm s') = jni_NewGlobalRef j CRIUResultType
        \<and> criuResultClass (vm s') = jni_NewGlobalRef j CRIUResult
        \<and> take (length (made s)) (made s') = made s
        \<and> (CriuInitOpts (criu_init_opts_query j) \<in> set (drop (length (made s)) (made s')))
            = vm_isCRIUSupportEnabled j
        \<and> NewGlobalRef CRIUResultType \<in> set (drop (length (made s)) (made s'))
        \<and> NewGlobalRef CRIUResult \<in> set (drop (length (made s)) (made s'))
        \<and> currentException s' =
            (if jni_NewGlobalRef j CRIUResultType = None \<or> jni_NewGlobalRef j CRIUResult = None
             then Some NativeOutOfMemoryError else currentException s)
        \<and> (if jni_NewGlobalRef j CRIUResultType = None \<or> jni_NewGlobalRef j CRIUResult = None
            then
              criuSupportSuccess (vm s') = criuSupportSuccess (vm s)
              \<and> criuSupportUnsupportedOperation (vm s') = criuSupportUnsupportedOperation (vm s)
              \<and> criuSupportInvalidArguments (vm s') = criuSupportInvalidArguments (vm s)
              \<and> criuSupportSystemCheckpointFailure (vm s') =
                  criuSupportSystemCheckpointFailure (vm s)
              \<and> criuSupportJVMCheckpointFailure (vm s') = criuSupportJVMCheckpointFailure (vm s)
              \<and> criuSupportJVMRestoreFailure (vm s') = criuSupportJVMRestoreFailure (vm s)
              \<and> criuResultInit (vm s') = criuResultInit (vm s)
              \<and> drop (length (made s)) (made s') =
                  (if vm_isCRIUSupportEnabled j then [CriuInitOpts (criu_init_opts_query j)]
                   else [])
                  @ [FindClass CRIUResultType, NewGlobalRef CRIUResultType,
                     FindClass CRIUResult, NewGlobalRef CRIUResult, EnterVM, ExitVM]
            else
              criuSupportSuccess (vm s') = jni_GetStaticFieldID j SUCCESS
              \<and> criuSupportUnsupportedOperation (vm s') =
                  jni_GetStaticFieldID j UNSUPPORTED_OPERATION
              \<and> criuSupportInvalidArguments (vm s') = jni_GetStaticFieldID j INVALID_ARGUMENTS
              \<and> criuSupportSystemCheckpointFailure (vm s') =
                  jni_GetStaticFieldID j SYSTEM_CHECKPOINT_FAILURE
              \<and> criuSupportJVMCheckpointFailure (vm s') =
                  jni_GetStaticFieldID j JVM_CHECKPOINT_FAILURE
              \<and> criuSupportJVMRestoreFailure (vm s') =
                  jni_GetStaticFieldID j JVM_RESTORE_FAILURE
              \<and> criuResultInit (vm s') = jni_GetMethodID j
              \<and> None \<notin> {criuSupportSuccess (vm s'), criuSupportUnsupportedOperation (vm s'),
                          criuSupportInvalidArguments (vm s'),
                          criuSupportSystemCheckpointFailure (vm s'),
                          criuSupportJVMCheckpointFailure (vm s'),
                          criuSupportJVMRestoreFailure (vm s'), criuResultInit (vm s')}
              \<and> drop (length (made s)) (made s') =
                  (if vm_isCRIUSupportEnabled j then [CriuInitOpts (criu_init_opts_query j)]
                   else [])
                  @ [FindClass CRIUResultType, NewGlobalRef CRIUResultType,
                     FindClass CRIUResult, NewGlobalRef CRIUResult,
                     GetStaticFieldID SUCCESS, GetStaticFieldID UNSUPPORTED_OPERATION,
                     GetStaticFieldID INVALID_ARGUMENTS,
                     GetStaticFieldID SYSTEM_CHECKPOINT_FAILURE,
                     GetStaticFieldID JVM_CHECKPOINT_FAILURE,
                     GetStaticFieldID JVM_RESTORE_FAILURE, GetMethodID]))"
proof (rule conjI)
  show "isCheckpointAllowed j s = (vm_checkpointAllowed j, s)"
    by (simp add: isCheckpointAllowed_def)
qed (rule impI, rule isCRIUSupportEnabledImpl_effects)

text \<open>
  On a process that has cached nothing yet, the query fills the nine fields of the VM
  and calls into libcriu.
\<close>

theorem support_query_changes_state:
  "isCRIUSupportEnabledImpl jni_ok fresh_process =
     Inr (True,
          \<lparr>vm = \<lparr>criuResultTypeClass = Some 10, criuResultClass = Some 11,
                 criuSupportSuccess = Some 20, criuSupportUnsupportedOperation = Some 20,
                 criuSupportInvalidArguments = Some 20,
                 criuSupportSystemCheckpointFailure = Some 20,
                 criuSupportJVMCheckpointFailure = Some 20,
                 criuSupportJVMRestoreFailure = Some 20, criuResultInit = Some 30\<rparr>,
           currentException = None,
           made =
             [CriuInitOpts 0, FindClass CRIUResultType, NewGlobalRef CRIUResultType,
              FindClass CRIUResult, NewGlobalRef CRIUResult, GetStaticFieldID SUCCESS,
              GetStaticFieldID UNSUPPORTED_OPERATION, GetStaticFieldID INVALID_ARGUMENTS,
              GetStaticFieldID SYSTEM_CHECKPOINT_FAILURE,
              GetStaticFieldID JVM_CHECKPOINT_FAILURE, GetStaticFieldID JVM_RESTORE_FAILURE,
              GetMethodID]\<rparr>)
   \<and> isCRIUSupportEnabledImpl jni_ok fresh_process \<noteq> Inr (True, fresh_process)"
  by (simp add: query_defs jni_ok_def fresh_process_def fresh_vm_def)

theorem queries_effects_witness:
  "map_sum id
     (\<lambda>(res, s').
        (res, criuResultTypeClass (vm s'), criuResultClass (vm s'),
         [criuSupportSuccess (vm s'), criuSupportUnsupportedOperation (vm s'),
          criuSupportInvalidArguments (vm s'), criuSupportSystemCheckpointFailure (vm s'),
          criuSupportJVMCheckpointFailure (vm s'), criuSupportJVMRestoreFailure (vm s'),
          criuResultInit (vm s')],
         currentException s', made s'))
     (isCRIUSupportEnabledImpl
        (jni_ok\<lparr>jni_GetStaticFieldID :=
                  (\<lambda>t. case t of
                          SUCCESS \<Rightarrow> Some 21
                        | UNSUPPORTED_OPERATION \<Rightarrow> Some 22
                        | INVALID_ARGUMENTS \<Rightarrow> Some 23
                        | SYSTEM_CHECKPOINT_FAILURE \<Rightarrow> Some 24
                        | JVM_CHECKPOINT_FAILURE \<Rightarrow> Some 25
                        | JVM_RESTORE_FAILURE \<Rightarrow> Some 26)\<rparr>)
        fresh_process)
   = Inr (True, Some 10, Some 11,
          [Some 21, Some 22, Some 23, Some 24, Some 25, Some 26, Some 30], None,
          [CriuInitOpts 0, FindClass CRIUResultType, NewGlobalRef CRIUResultType,
           FindClass CRIUResult, NewGlobalRef CRIUResult, GetStaticFieldID SUCCESS,
           GetStaticFieldID UNSUPPORTED_OPERATION, GetStaticFieldID INVALID_ARGUMENTS,
           GetStaticFieldID SYSTEM_CHECKPOINT_FAILURE, GetStaticFieldID JVM_CHECKPOINT_FAILURE,
           GetStaticFieldID JVM_RESTORE_FAILURE, GetMethodID])
   \<and> map_sum id
     (\<lambda>(res, s').
        (res, criuResultTypeClass (vm s'), criuResultClass (vm s'),
         [criuSupportSuccess (vm s'), criuSupportUnsupportedOperation (vm s'),
          criuSupportInvalidArguments (vm s'), criuSupportSystemCheckpointFailure (vm s'),
          criuSupportJVMCheckpointFailure (vm s'), criuSupportJVMRestoreFailure (vm s'),
          criuResultInit (vm s')],
         currentException s', made s'))
     (isCRIUSupportEnabledImpl
        (jni_ok\<lparr>vm_isCRIUSupportEnabled := False, jni_NewGlobalRef := (\<lambda>k. None)\<rparr>)
        fresh_process)
   = Inr (False, None, None, [None, None, None, None, None, None, None],
          Some NativeOutOfMemoryError,
          [FindClass CRIUResultType, NewGlobalRef CRIUResultType, FindClass CRIUResult,
           NewGlobalRef CRIUResult, EnterVM, ExitVM])"
proof (rule conjI)
  let ?j = "jni_ok\<lparr>jni_GetStaticFieldID :=
                  (\<lambda>t. case t of
                          SUCCESS \<Rightarrow> Some 21
                        | UNSUPPORTED_OPERATION \<Rightarrow> Some 22
                        | INVALID_ARGUMENTS \<Rightarrow> Some 23
                        | SYSTEM_CHECKPOINT_FAILURE \<Rightarrow> Some 24
                        | JVM_CHECKPOINT_FAILURE \<Rightarrow> Some 25
                        | JVM_RESTORE_FAILURE \<Rightarrow> Some 26)\<rparr>"
  obtain res s' where run: "isCRIUSupportEnabledImpl ?j fresh_process = Inr (res, s')"
    by (simp add: query_defs jni_ok_def fresh_process_def fresh_vm_def)
  have start: "made fresh_process = []" "currentException fresh_process = None"
    by (simp_all add: fresh_process_def)
  from queries_effects [of ?j fresh_process res s'] run start
  show "map_sum id
     (\<lambda>(res, s').
        (res, criuResultTypeClass (vm s'), criuResultClass (vm s'),
         [criuSupportSuccess (vm s'), criuSupportUnsupportedOperation (vm s'),
          criuSupportInvalidArguments (vm s'), criuSupportSystemCheckpointFailure (vm s'),
          criuSupportJVMCheckpointFailure (vm s'), criuSupportJVMRestoreFailure (vm s'),
          criuResultInit (vm s')],
         currentException s', made s'))
     (isCRIUSupportEnabledImpl ?j fresh_process)
   = Inr (True, Some 10, Some 11,
          [Some 21, Some 22, Some 23, Some 24, Some 25, Some 26, Some 30], None,
          [CriuInitOpts 0, FindClass CRIUResultType, NewGlobalRef CRIUResultType,
           FindClass CRIUResult, NewGlobalRef CRIUResult, GetStaticFieldID SUCCESS,
           GetStaticFieldID UNSUPPORTED_OPERATION, GetStaticFieldID INVALID_ARGUMENTS,
           GetStaticFieldID SYSTEM_CHECKPOINT_FAILURE, GetStaticFieldID JVM_CHECKPOINT_FAILURE,
           GetStaticFieldID JVM_RESTORE_FAILURE, GetMethodID])"
    by (simp add: jni_ok_def)
next
  let ?j = "jni_ok\<lparr>vm_isCRIUSupportEnabled := False, jni_NewGlobalRef := (\<lambda>k. None)\<rparr>"
  obtain s' where run: "isCRIUSupportEnabledImpl ?j fresh_process = Inr (False, s')"
    by (simp add: query_defs jni_ok_def fresh_process_def fresh_vm_def)
  have start: "made fresh_process = []" "currentException fresh_process = None"
    "vm fresh_process = fresh_vm"
    by (simp_all add: fresh_process_def)
  from queries_effects [of ?j fresh_process False s'] run start
  show "map_sum id
     (\<lambda>(res, s').
        (res, criuResultTypeClass (vm s'), criuResultClass (vm s'),
         [criuSupportSuccess (vm s'), criuSupportUnsupportedOperation (vm s'),
          criuSupportInvalidArguments (vm s'), criuSupportSystemCheckpointFailure (vm s'),
          criuSupportJVMCheckpointFailure (vm s'), criuSupportJVMRestoreFailure (vm s'),
          criuResultInit (vm s')],
         currentException s', made s'))
     (isCRIUSupportEnabledImpl ?j fresh_process)
   = Inr (False, None, None, [None, None, None, None, None, None, None],
          Some NativeOutOfMemoryError,
          [FindClass CRIUResultType, NewGlobalRef CRIUResultType, FindClass CRIUResult,
           NewGlobalRef CRIUResult, EnterVM, ExitVM])"
    by (simp add: jni_ok_def fresh_vm_def)
qed

end
